theory Spec2Isabelle
  imports Complex_Main
begin

section \<open>Data model of \<open>app/models.py\<close>\<close>

text \<open>
  The Django models are tables of rows. A \<open>User\<close> and its \<open>UserProfile\<close> are in
  one-to-one correspondence (\<open>OneToOneField\<close>); a profile is identified by the number
  of its user. The ways from a user to its profile are modelled as the source declares
  them, see \<open>userprofile\<close> and \<open>user_profile\<close> below.

  The abstract base classes contribute their columns to the concrete models: \<open>Tag\<close>
  has the columns of \<open>EmbeddableModel\<close> and \<open>UserOwnedModel\<close>; \<open>Memo\<close>,
  \<open>Reference\<close> and \<open>Inkling\<close> add \<open>privacy_setting\<close> (\<open>NodeModel\<close>); \<open>Link\<close> adds
  the two generic foreign keys and the link type. Payload columns that no function
  below reads (title, content, summary, timestamps) are left out.
\<close>

datatype model = Memo | Reference | Inkling | Link | Tag

record embeddable =
  pk :: nat
  user :: nat
  embedding :: "real list option"

record node = embeddable +
  privacy_setting :: string

record link = node +
  source_content_type :: model
  source_object_id :: nat
  target_content_type :: model
  target_object_id :: nat
  link_type :: nat

text \<open>
  The database: one list of rows per concrete model, the rows of the symmetrical
  many-to-many table \<open>UserProfile.friends\<close> as pairs (from, to), and the rows of
  \<open>FriendRequest\<close> as pairs (sender, receiver).
\<close>

record database =
  memos :: "node list"
  references :: "node list"
  inklings :: "node list"
  links :: "link list"
  tags :: "embeddable list"
  friends :: "(nat \<times> nat) list"
  friend_requests :: "(nat \<times> nat) list"

datatype error =
    ValueError string
  | TypeError string
  | AttributeError string
  | FieldError
  | RecursionError

definition PRIVATE :: string where "PRIVATE = ''private''"
definition FRIENDS :: string where "FRIENDS = ''friends''"
definition FRIENDS_OF_FRIENDS :: string where "FRIENDS_OF_FRIENDS = ''friends_of_friends''"

section \<open>Friendship graph (\<open>UserProfile\<close>, \<open>FriendRequest\<close>)\<close>

text \<open>\<open>profile.friends.all()\<close>: the targets of the rows that start at the profile.\<close>

definition friends_all :: "database \<Rightarrow> nat \<Rightarrow> nat list" where
  "friends_all db p = map snd (filter (\<lambda>r. fst r = p) (friends db))"

definition is_friends_with :: "database \<Rightarrow> nat \<Rightarrow> nat \<Rightarrow> bool" where
  "is_friends_with db self friend_profile = (friend_profile \<in> set (friends_all db self))"

definition has_sent_request_to :: "database \<Rightarrow> nat \<Rightarrow> nat \<Rightarrow> bool" where
  "has_sent_request_to db self receiver_profile =
     ((self, receiver_profile) \<in> set (friend_requests db))"

text \<open>
  \<open>friends.add\<close> and \<open>friends.remove\<close> of a many-to-many field declared
  \<open>symmetrical=True\<close>: the row and its mirror image are written, rows already there
  are not written twice.
\<close>

definition add_friend_row :: "database \<Rightarrow> nat \<times> nat \<Rightarrow> database" where
  "add_friend_row db r = (if r \<in> set (friends db) then db else db\<lparr>friends := friends db @ [r]\<rparr>)"

definition friends_add :: "database \<Rightarrow> nat \<Rightarrow> nat \<Rightarrow> database" where
  "friends_add db a b = add_friend_row (add_friend_row db (a, b)) (b, a)"

definition friends_remove :: "database \<Rightarrow> nat \<Rightarrow> nat \<Rightarrow> database" where
  "friends_remove db a b =
     db\<lparr>friends := filter (\<lambda>r. r \<noteq> (a, b) \<and> r \<noteq> (b, a)) (friends db)\<rparr>"

definition send_friend_request :: "database \<Rightarrow> nat \<Rightarrow> nat \<Rightarrow> database" where
  "send_friend_request db self receiver_profile =
     (if \<not> has_sent_request_to db self receiver_profile \<and> \<not> is_friends_with db self receiver_profile
      then db\<lparr>friend_requests := friend_requests db @ [(self, receiver_profile)]\<rparr>
      else db)"

definition accept_friend_request :: "database \<Rightarrow> nat \<Rightarrow> nat \<Rightarrow> database" where
  "accept_friend_request db self sender_profile =
     (if has_sent_request_to db sender_profile self
      then (let db1 = friends_add db self sender_profile;
                db2 = friends_add db1 sender_profile self
            in db2\<lparr>friend_requests :=
                     filter (\<lambda>r. r \<noteq> (sender_profile, self)) (friend_requests db2)\<rparr>)
      else db)"

definition reject_friend_request :: "database \<Rightarrow> nat \<Rightarrow> nat \<Rightarrow> database" where
  "reject_friend_request db self sender_profile =
     db\<lparr>friend_requests := filter (\<lambda>r. r \<noteq> (sender_profile, self)) (friend_requests db)\<rparr>"

definition remove_friend :: "database \<Rightarrow> nat \<Rightarrow> nat \<Rightarrow> database" where
  "remove_friend db self friend_profile = friends_remove db self friend_profile"

text \<open>
  From a user to its profile. \<open>UserProfile.user\<close> is declared with
  \<open>related_name="user_profile"\<close>, so a \<open>User\<close> has no attribute \<open>userprofile\<close>:
  reading \<open>user.userprofile\<close> raises \<open>AttributeError\<close>. The attribute
  \<open>User.user_profile\<close> is overwritten at the end of the module by a property whose
  body reads \<open>self.user_profile\<close> again: reading it raises \<open>RecursionError\<close>.
\<close>

definition userprofile :: "nat \<Rightarrow> error + nat" where
  "userprofile usr = Inl (AttributeError ''userprofile'')"

definition user_profile :: "nat \<Rightarrow> error + nat" where
  "user_profile usr = Inl RecursionError"

section \<open>Query predicates (\<open>Q\<close> objects)\<close>

text \<open>
  A \<open>Q\<close> object is a tree of field lookups. The lookups are the ones the source
  writes; \<open>Q(a=x, b=y)\<close> is the list of its keyword lookups, all of which must hold
  of the same row. A queryset passed to an \<open>__in\<close> lookup is the list of the keys it
  selects in the same database state.
\<close>

datatype lookup =
    User_eq nat
  | Pk_eq nat
  | Privacy_setting_eq string
  | User_userprofile_friends_eq nat
  | User_userprofile_friends_in "nat list"
  | User_in "nat list"
  | Source_links_source_content_type_eq model
  | Target_links_target_content_type_eq model
  | Source_content_type_eq model
  | Source_object_id_eq nat
  | Source_object_id_in "nat list"
  | Target_content_type_eq model
  | Target_object_id_eq nat
  | Target_object_id_in "nat list"

datatype Q = Q "lookup list" | QAnd Q Q | QOr Q Q | QNot Q

text \<open>
  \<open>a | b\<close> and \<open>a & b\<close>: an operand without lookups (\<open>Q()\<close>) is dropped, as
  \<open>Q._combine\<close> does.
\<close>

fun q_or :: "Q \<Rightarrow> Q \<Rightarrow> Q" where
  "q_or (Q []) b = b"
| "q_or a (Q []) = a"
| "q_or a b = QOr a b"

fun q_and :: "Q \<Rightarrow> Q \<Rightarrow> Q" where
  "q_and (Q []) b = b"
| "q_and a (Q []) = a"
| "q_and a b = QAnd a b"

text \<open>A row of any of the tables, with the columns its model has.\<close>

datatype row = TagRow embeddable | NodeRow node | LinkRow link

fun row_pk :: "row \<Rightarrow> nat" where
  "row_pk (TagRow t) = pk t"
| "row_pk (NodeRow n) = pk n"
| "row_pk (LinkRow l) = pk l"

fun row_user :: "row \<Rightarrow> nat" where
  "row_user (TagRow t) = user t"
| "row_user (NodeRow n) = user n"
| "row_user (LinkRow l) = user l"

fun row_embedding :: "row \<Rightarrow> real list option" where
  "row_embedding (TagRow t) = embedding t"
| "row_embedding (NodeRow n) = embedding n"
| "row_embedding (LinkRow l) = embedding l"

fun row_privacy_setting :: "row \<Rightarrow> string option" where
  "row_privacy_setting (TagRow t) = None"
| "row_privacy_setting (NodeRow n) = Some (privacy_setting n)"
| "row_privacy_setting (LinkRow l) = Some (privacy_setting l)"

fun row_link :: "row \<Rightarrow> link option" where
  "row_link (LinkRow l) = Some l"
| "row_link _ = None"

text \<open>\<open>cls.objects\<close>: the rows of the table of a model.\<close>

fun objects :: "database \<Rightarrow> model \<Rightarrow> row list" where
  "objects db Memo = map NodeRow (memos db)"
| "objects db Reference = map NodeRow (references db)"
| "objects db Inkling = map NodeRow (inklings db)"
| "objects db Link = map LinkRow (links db)"
| "objects db Tag = map TagRow (tags db)"

text \<open>
  Whether a lookup holds of a row \<open>r\<close> of the table of model \<open>m\<close>.
  \<open>source_links\<close> and \<open>target_links\<close> are the generic relations of \<open>NodeModel\<close>:
  the links whose source (target) content type is \<open>m\<close> and whose source (target)
  object id is the key of \<open>r\<close>. A lookup that the model does not resolve (see
  \<open>resolves\<close>) holds of no row; a query with such a lookup is refused before any row
  is tested (see \<open>filter_query\<close>).
\<close>

fun holds :: "database \<Rightarrow> model \<Rightarrow> row \<Rightarrow> lookup \<Rightarrow> bool" where
  "holds db m r (User_eq u) = (row_user r = u)"
| "holds db m r (Pk_eq k) = (row_pk r = k)"
| "holds db m r (Privacy_setting_eq s) = (row_privacy_setting r = Some s)"
| "holds db m r (User_userprofile_friends_eq u) = False"
| "holds db m r (User_userprofile_friends_in us) = False"
| "holds db m r (User_in us) = (row_user r \<in> set us)"
| "holds db m r (Source_links_source_content_type_eq ct) =
     (\<exists>l \<in> set (links db). source_content_type l = m \<and> source_object_id l = row_pk r
        \<and> source_content_type l = ct)"
| "holds db m r (Target_links_target_content_type_eq ct) =
     (\<exists>l \<in> set (links db). target_content_type l = m \<and> target_object_id l = row_pk r
        \<and> target_content_type l = ct)"
| "holds db m r (Source_content_type_eq ct) =
     (case row_link r of Some l \<Rightarrow> source_content_type l = ct | None \<Rightarrow> False)"
| "holds db m r (Source_object_id_eq k) =
     (case row_link r of Some l \<Rightarrow> source_object_id l = k | None \<Rightarrow> False)"
| "holds db m r (Source_object_id_in ks) =
     (case row_link r of Some l \<Rightarrow> source_object_id l \<in> set ks | None \<Rightarrow> False)"
| "holds db m r (Target_content_type_eq ct) =
     (case row_link r of Some l \<Rightarrow> target_content_type l = ct | None \<Rightarrow> False)"
| "holds db m r (Target_object_id_eq k) =
     (case row_link r of Some l \<Rightarrow> target_object_id l = k | None \<Rightarrow> False)"
| "holds db m r (Target_object_id_in ks) =
     (case row_link r of Some l \<Rightarrow> target_object_id l \<in> set ks | None \<Rightarrow> False)"

fun matches :: "database \<Rightarrow> model \<Rightarrow> Q \<Rightarrow> row \<Rightarrow> bool" where
  "matches db m (Q ls) r = list_all (holds db m r) ls"
| "matches db m (QAnd a b) r = (matches db m a r \<and> matches db m b r)"
| "matches db m (QOr a b) r = (matches db m a r \<or> matches db m b r)"
| "matches db m (QNot a) r = (\<not> matches db m a r)"

text \<open>
  \<open>queryset.filter(q)\<close> and \<open>queryset.exclude(q)\<close> on the rows of the table of \<open>m\<close>.
  Excluding \<open>Q()\<close> excludes nothing.
\<close>

definition filter_qs :: "database \<Rightarrow> model \<Rightarrow> Q \<Rightarrow> row list \<Rightarrow> row list" where
  "filter_qs db m q rows = filter (matches db m q) rows"

definition exclude_qs :: "database \<Rightarrow> model \<Rightarrow> Q \<Rightarrow> row list \<Rightarrow> row list" where
  "exclude_qs db m q rows = (if q = Q [] then rows else filter (\<lambda>r. \<not> matches db m q r) rows)"

text \<open>
  Whether the table of model \<open>m\<close> resolves a lookup. Every model has \<open>pk\<close> and
  \<open>user\<close>; \<open>privacy_setting\<close> and the generic relations \<open>source_links\<close> and
  \<open>target_links\<close> belong to the node models (all but \<open>Tag\<close>); the columns of the
  generic foreign keys belong to \<open>Link\<close>. No model resolves
  \<open>user__userprofile__friends\<close>: the query name of the relation from \<open>User\<close> to
  \<open>UserProfile\<close> is \<open>user_profile\<close>.
\<close>

fun resolves :: "model \<Rightarrow> lookup \<Rightarrow> bool" where
  "resolves m (User_eq u) = True"
| "resolves m (Pk_eq k) = True"
| "resolves m (Privacy_setting_eq s) = (m \<noteq> Tag)"
| "resolves m (User_userprofile_friends_eq u) = False"
| "resolves m (User_userprofile_friends_in us) = False"
| "resolves m (User_in us) = True"
| "resolves m (Source_links_source_content_type_eq ct) = (m \<noteq> Tag)"
| "resolves m (Target_links_target_content_type_eq ct) = (m \<noteq> Tag)"
| "resolves m (Source_content_type_eq ct) = (m = Link)"
| "resolves m (Source_object_id_eq k) = (m = Link)"
| "resolves m (Source_object_id_in ks) = (m = Link)"
| "resolves m (Target_content_type_eq ct) = (m = Link)"
| "resolves m (Target_object_id_eq k) = (m = Link)"
| "resolves m (Target_object_id_in ks) = (m = Link)"

fun resolvable :: "model \<Rightarrow> Q \<Rightarrow> bool" where
  "resolvable m (Q ls) = list_all (resolves m) ls"
| "resolvable m (QAnd a b) = (resolvable m a \<and> resolvable m b)"
| "resolvable m (QOr a b) = (resolvable m a \<and> resolvable m b)"
| "resolvable m (QNot a) = resolvable m a"

text \<open>
  \<open>cls.objects.filter(q)\<close> as Django runs it: the call raises \<open>FieldError\<close> when a
  lookup of \<open>q\<close> does not resolve, and filters the rows otherwise.
\<close>

definition filter_query :: "database \<Rightarrow> model \<Rightarrow> Q \<Rightarrow> row list \<Rightarrow> error + row list" where
  "filter_query db m q rows = (if resolvable m q then Inr (filter_qs db m q rows) else Inl FieldError)"

section \<open>Visibility policy (\<open>PrivacySettingsModel\<close>)\<close>

text \<open>
  \<open>is_viewable_by(self, user)\<close>: the method takes the viewer only; it has no level
  parameter. The profile of the viewer is read as \<open>user.userprofile\<close> before the
  argument \<open>self.user.user_profile\<close> is evaluated.
\<close>

definition is_viewable_by :: "database \<Rightarrow> 'a node_scheme \<Rightarrow> nat \<Rightarrow> error + bool" where
  "is_viewable_by db self usr =
     (if user self = usr then Inr True
      else if privacy_setting self = PRIVATE then Inr False
      else if privacy_setting self = FRIENDS then
        (case userprofile usr of
           Inl e \<Rightarrow> Inl e
         | Inr viewer_profile \<Rightarrow>
             (case user_profile (user self) of
                Inl e \<Rightarrow> Inl e
              | Inr owner_profile \<Rightarrow> Inr (is_friends_with db viewer_profile owner_profile)))
      else if privacy_setting self = FRIENDS_OF_FRIENDS then
        (case userprofile usr of
           Inl e \<Rightarrow> Inl e
         | Inr viewer_profile \<Rightarrow>
             (case user_profile (user self) of
                Inl e \<Rightarrow> Inl e
              | Inr owner_profile \<Rightarrow>
                  if is_friends_with db viewer_profile owner_profile then Inr True
                  else (case user_profile usr of
                          Inl e \<Rightarrow> Inl e
                        | Inr p \<Rightarrow>
                            (case user_profile (user self) of
                               Inl e \<Rightarrow> Inl e
                             | Inr op \<Rightarrow>
                                 (let user_friends = friends_all db p;
                                      owner_friends = friends_all db op;
                                      mutual_friends = set user_friends \<inter> set owner_friends
                                  in Inr (mutual_friends \<noteq> {}))))))
      else Inr False)"

definition get_own_objects_filter :: "nat \<Rightarrow> Q" where
  "get_own_objects_filter usr = Q [User_eq usr]"

definition get_friends_objects_filter :: "nat \<Rightarrow> Q" where
  "get_friends_objects_filter usr = Q [Privacy_setting_eq FRIENDS, User_userprofile_friends_eq usr]"

definition get_friends_of_friends_objects_filter :: "database \<Rightarrow> nat \<Rightarrow> error + Q" where
  "get_friends_of_friends_objects_filter db usr =
     (case userprofile usr of
        Inl e \<Rightarrow> Inl e
      | Inr p \<Rightarrow>
          (let user_friends = friends_all db p
           in Inr (q_and (Q [Privacy_setting_eq FRIENDS_OF_FRIENDS,
                             User_userprofile_friends_in user_friends])
                         (QNot (Q [User_in user_friends])))))"

definition get_privacy_filter :: "database \<Rightarrow> nat \<Rightarrow> string \<Rightarrow> error + Q" where
  "get_privacy_filter db usr level =
     (if level = ''own'' then Inr (get_own_objects_filter usr)
      else if level = ''friends'' then
        Inr (q_or (get_own_objects_filter usr) (get_friends_objects_filter usr))
      else if level = ''fof'' then
        (case get_friends_of_friends_objects_filter db usr of
           Inl e \<Rightarrow> Inl e
         | Inr fof \<Rightarrow>
             Inr (q_or (q_or (get_own_objects_filter usr) (get_friends_objects_filter usr)) fof))
      else Inl (ValueError ''Invalid level provided.''))"

section \<open>Link graph (\<open>NodeModel\<close>, \<open>Link\<close>)\<close>

text \<open>
  The \<open>ContentType\<close> table has one row per model; a content type is identified with
  its model, and \<open>get_for_model\<close> and \<open>model_class\<close> are the identity.
\<close>

definition content_types :: "model list" where
  "content_types = [Memo, Reference, Inkling, Link, Tag]"

fun model_name :: "model \<Rightarrow> string" where
  "model_name Memo = ''memo''"
| "model_name Reference = ''reference''"
| "model_name Inkling = ''inkling''"
| "model_name Link = ''link''"
| "model_name Tag = ''tag''"

text \<open>\<open>issubclass(cls, PrivacySettingsModel)\<close>: every model but \<open>Tag\<close>.\<close>

fun issubclass_PrivacySettingsModel :: "model \<Rightarrow> bool" where
  "issubclass_PrivacySettingsModel Tag = False"
| "issubclass_PrivacySettingsModel _ = True"

text \<open>
  A generic foreign key resolves to the row of the named table with the named key, and
  to \<open>None\<close> when there is none. The result carries the class of the object.
\<close>

definition get_object :: "database \<Rightarrow> model \<Rightarrow> nat \<Rightarrow> (model \<times> row) option" where
  "get_object db m k = map_option (Pair m) (find (\<lambda>r. row_pk r = k) (objects db m))"

definition source_content_object :: "database \<Rightarrow> link \<Rightarrow> (model \<times> row) option" where
  "source_content_object db l = get_object db (source_content_type l) (source_object_id l)"

definition target_content_object :: "database \<Rightarrow> link \<Rightarrow> (model \<times> row) option" where
  "target_content_object db l = get_object db (target_content_type l) (target_object_id l)"

text \<open>
  \<open>isinstance(obj, cls)\<close> for a concrete model class: no concrete model derives from
  another, and \<open>None\<close> is an instance of none.
\<close>

fun isinstance :: "(model \<times> row) option \<Rightarrow> model \<Rightarrow> bool" where
  "isinstance None cls = False"
| "isinstance (Some (m, r)) cls = (m = cls)"

text \<open>
  \<open>NodeModel.related_nodes_filter\<close>; \<open>self_model\<close> is the class of \<open>self\<close>.
\<close>

definition related_nodes_filter :: "model \<Rightarrow> 'a node_scheme \<Rightarrow> model \<Rightarrow> Q" where
  "related_nodes_filter self_model self other_model_class =
     (let other_model_content_type = other_model_class;
          model_content_type = self_model;
          c0 = Q [];
          c1 = q_or c0 (Q [Source_links_source_content_type_eq other_model_content_type]);
          c2 = q_or c1 (Q [Target_links_target_content_type_eq other_model_content_type]);
          c3 = (if other_model_class = Link
                then q_or (q_or c2 (Q [Source_content_type_eq model_content_type,
                                       Source_object_id_eq (pk self)]))
                          (Q [Target_content_type_eq model_content_type,
                              Target_object_id_eq (pk self)])
                else c2);
          c4 = (if self_model = other_model_class then q_or c3 (Q [Pk_eq (pk self)]) else c3)
      in c4)"

text \<open>\<open>Link.related_nodes_filter\<close>, the override.\<close>

definition Link_related_nodes_filter :: "database \<Rightarrow> link \<Rightarrow> model \<Rightarrow> Q" where
  "Link_related_nodes_filter db self other_model_class =
     (let c0 = related_nodes_filter Link self other_model_class;
          c1 = (if isinstance (source_content_object db self) other_model_class
                then q_or c0 (Q [Pk_eq (source_object_id self)]) else c0);
          c2 = (if isinstance (target_content_object db self) other_model_class
                then q_or c1 (Q [Pk_eq (target_object_id self)]) else c1)
      in c2)"

text \<open>
  \<open>obj.is_viewable_by(user, privacy_level)\<close>, the call that \<open>Link.is_viewable_by\<close>
  makes on an endpoint, by the class of the endpoint:
  a \<open>Link\<close> runs \<open>Link.is_viewable_by\<close>; a \<open>Memo\<close>, \<open>Reference\<close> or \<open>Inkling\<close>
  has only \<open>PrivacySettingsModel.is_viewable_by(self, user)\<close>, which does not take the
  second argument, so the call raises \<open>TypeError\<close>; a \<open>Tag\<close> and \<open>None\<close> have no
  such method.
\<close>

definition call_is_viewable_by ::
  "(link \<Rightarrow> error + bool) \<Rightarrow> (model \<times> row) option \<Rightarrow> error + bool" where
  "call_is_viewable_by link_method obj =
     (case obj of
        None \<Rightarrow> Inl (AttributeError ''is_viewable_by'')
      | Some (m, r) \<Rightarrow>
          (case r of
             LinkRow l \<Rightarrow> link_method l
           | NodeRow n \<Rightarrow> Inl (TypeError ''PrivacySettingsModel.is_viewable_by() takes 2 positional arguments but 3 were given'')
           | TagRow t \<Rightarrow> Inl (AttributeError ''is_viewable_by'')))"

text \<open>
  \<open>Link.is_viewable_by\<close>. The first argument bounds the depth of the recursion through
  links whose endpoints are links, as the interpreter's recursion limit does.
\<close>

fun Link_is_viewable_by :: "nat \<Rightarrow> database \<Rightarrow> link \<Rightarrow> nat \<Rightarrow> string \<Rightarrow> error + bool" where
  "Link_is_viewable_by 0 db self usr privacy_level = Inl RecursionError"
| "Link_is_viewable_by (Suc depth) db self usr privacy_level =
     (case call_is_viewable_by (\<lambda>l. Link_is_viewable_by depth db l usr privacy_level)
             (source_content_object db self) of
        Inl e \<Rightarrow> Inl e
      | Inr False \<Rightarrow> Inr False
      | Inr True \<Rightarrow>
          call_is_viewable_by (\<lambda>l. Link_is_viewable_by depth db l usr privacy_level)
            (target_content_object db self))"

text \<open>
  \<open>Link.get_privacy_filter\<close>: the loop over the content types of the three content
  models. Each of them inherits \<open>PrivacySettingsModel.get_privacy_filter\<close>. The two
  calls \<open>node_model.objects.filter(model_filter)\<close> build their queries, and raise if a
  lookup does not resolve, when the \<open>Q\<close> objects are made.
\<close>

definition node_content_types :: "model list" where
  "node_content_types =
     filter (\<lambda>ct. model_name ct \<in> set [''memo'', ''reference'', ''inkling'']) content_types"

fun Link_get_privacy_filter_loop ::
  "database \<Rightarrow> nat \<Rightarrow> string \<Rightarrow> model list \<Rightarrow> Q \<Rightarrow> error + Q" where
  "Link_get_privacy_filter_loop db usr privacy_level [] combined_filters = Inr combined_filters"
| "Link_get_privacy_filter_loop db usr privacy_level (content_type # rest) combined_filters =
     (let node_model = content_type in
      if issubclass_PrivacySettingsModel node_model then
        (case get_privacy_filter db usr privacy_level of
           Inl e \<Rightarrow> Inl e
         | Inr model_filter \<Rightarrow>
             (case filter_query db node_model model_filter (objects db node_model) of
                Inl e \<Rightarrow> Inl e
              | Inr source_nodes \<Rightarrow>
                  (case filter_query db node_model model_filter (objects db node_model) of
                     Inl e \<Rightarrow> Inl e
                   | Inr target_nodes \<Rightarrow>
                       Link_get_privacy_filter_loop db usr privacy_level rest
                         (q_or combined_filters
                            (q_and
                               (Q [Source_content_type_eq content_type,
                                   Source_object_id_in (map row_pk source_nodes)])
                               (Q [Target_content_type_eq content_type,
                                   Target_object_id_in (map row_pk target_nodes)]))))))
      else Link_get_privacy_filter_loop db usr privacy_level rest combined_filters)"

definition Link_get_privacy_filter :: "database \<Rightarrow> nat \<Rightarrow> string \<Rightarrow> error + Q" where
  "Link_get_privacy_filter db usr privacy_level =
     Link_get_privacy_filter_loop db usr privacy_level node_content_types (Q [])"

text \<open>\<open>cls.get_privacy_filter\<close> for a privacy-gated class: \<open>Link\<close> overrides it.\<close>

definition cls_get_privacy_filter :: "database \<Rightarrow> model \<Rightarrow> nat \<Rightarrow> string \<Rightarrow> error + Q" where
  "cls_get_privacy_filter db cls usr level =
     (if cls = Link then Link_get_privacy_filter db usr level else get_privacy_filter db usr level)"

section \<open>Similarity search (\<open>EmbeddableModel.get_similar_objects\<close>)\<close>

text \<open>
  The cosine distance is computed by the database extension; it is a parameter here.
  \<open>alias_distance\<close> pairs every row with its distance to the query embedding. The
  embedding column is nullable: such a row has no distance, the comparison
  \<open>distance < threshold\<close> is not true of it, and it is dropped.
\<close>

definition alias_distance ::
  "(real list \<Rightarrow> real list \<Rightarrow> real) \<Rightarrow> real list \<Rightarrow> row list \<Rightarrow> (row \<times> real) list" where
  "alias_distance CosineDistance emb rows =
     List.map_filter (\<lambda>r. map_option (\<lambda>e. (r, CosineDistance e emb)) (row_embedding r)) rows"

text \<open>
  The queryset is returned as the list of its rows, each with the aliased distance that
  orders it. \<open>filter\<close> and \<open>exclude\<close> raise \<open>FieldError\<close> when a lookup does not
  resolve. \<open>if limit:\<close> is false for \<open>None\<close> and for \<open>0\<close>; slicing a queryset
  with a negative bound raises \<open>ValueError\<close>.
\<close>

definition get_similar_objects ::
  "(real list \<Rightarrow> real list \<Rightarrow> real) \<Rightarrow> database \<Rightarrow> model \<Rightarrow> real list \<Rightarrow> nat
     \<Rightarrow> Q option \<Rightarrow> int option \<Rightarrow> real \<Rightarrow> string \<Rightarrow> error + (row \<times> real) list" where
  "get_similar_objects CosineDistance db cls emb usr exclude_filter limit filter_theshold privacy_level =
     (let queryset = sort_key snd
                       (filter (\<lambda>(r, distance). distance < filter_theshold)
                          (alias_distance CosineDistance emb (objects db cls)))
      in case (if issubclass_PrivacySettingsModel cls
               then cls_get_privacy_filter db cls usr privacy_level
               else Inr (Q [User_eq usr])) of
           Inl e \<Rightarrow> Inl e
         | Inr privacy_filter \<Rightarrow>
             if \<not> resolvable cls privacy_filter then Inl FieldError
             else
               (let queryset1 = filter (\<lambda>(r, distance). matches db cls privacy_filter r) queryset
                in case (case exclude_filter of
                           None \<Rightarrow> Inr queryset1
                         | Some q \<Rightarrow>
                             if \<not> resolvable cls q then Inl FieldError
                             else if q = Q [] then Inr queryset1
                             else Inr (filter (\<lambda>(r, distance). \<not> matches db cls q r) queryset1)) of
                     Inl e \<Rightarrow> Inl e
                   | Inr queryset2 \<Rightarrow>
                       (case limit of
                          None \<Rightarrow> Inr queryset2
                        | Some n \<Rightarrow>
                            if n = 0 then Inr queryset2
                            else if n < 0 then Inl (ValueError ''Negative indexing is not supported.'')
                            else Inr (take (nat n) queryset2))))"

text \<open>
  \<open>NodeModel.all_links\<close>: the links whose source or whose target is \<open>self\<close>.
\<close>

definition all_links :: "database \<Rightarrow> model \<Rightarrow> 'a node_scheme \<Rightarrow> row list" where
  "all_links db self_model self =
     (let content_type = self_model
      in filter_qs db Link
           (q_or (Q [Source_content_type_eq content_type, Source_object_id_eq (pk self)])
                 (Q [Target_content_type_eq content_type, Target_object_id_eq (pk self)]))
           (objects db Link))"

section \<open>Well-formed friendship tables and example data\<close>

text \<open>
  The friends table of a symmetrical many-to-many field holds the mirror image of each
  of its rows.
\<close>

definition symmetrical :: "database \<Rightarrow> bool" where
  "symmetrical db = (\<forall>(a, b) \<in> set (friends db). (b, a) \<in> set (friends db))"

text \<open>An empty database, the starting point of the concrete examples.\<close>

definition empty_db :: database where
  "empty_db = \<lparr>memos = [], references = [], inklings = [], links = [], tags = [],
               friends = [], friend_requests = []\<rparr>"

text \<open>
  Example data. Users 7 and 8 are friends, users 8 and 9 are friends, users 7 and 9 are
  not. User 7 owns memos 10 and 14 and reference 20; user 8 owns memos 11 and 13; user
  9 owns memo 12. Link 30 joins memos 10 and 11, link 31 joins memo 10 and reference 20,
  link 32 joins memos 12 and 13, link 33 joins memos 10 and 14.
\<close>

definition mk_node :: "nat \<Rightarrow> nat \<Rightarrow> string \<Rightarrow> real list option \<Rightarrow> node" where
  "mk_node k u s e = \<lparr>pk = k, user = u, embedding = e, privacy_setting = s\<rparr>"

definition mk_link :: "nat \<Rightarrow> nat \<Rightarrow> model \<times> nat \<Rightarrow> model \<times> nat \<Rightarrow> link" where
  "mk_link k u src tgt =
     \<lparr>pk = k, user = u, embedding = None, privacy_setting = PRIVATE,
      source_content_type = fst src, source_object_id = snd src,
      target_content_type = fst tgt, target_object_id = snd tgt, link_type = 5\<rparr>"

definition example_db :: database where
  "example_db =
     \<lparr>memos = [mk_node 10 7 PRIVATE (Some [1/10]), mk_node 11 8 FRIENDS (Some [3/10]),
               mk_node 12 9 FRIENDS_OF_FRIENDS (Some [9/10]), mk_node 13 8 FRIENDS_OF_FRIENDS None,
               mk_node 14 7 PRIVATE (Some [5/10])],
      references = [mk_node 20 7 PRIVATE (Some [2/10])],
      inklings = [],
      links = [mk_link 30 7 (Memo, 10) (Memo, 11), mk_link 31 7 (Memo, 10) (Reference, 20),
               mk_link 32 9 (Memo, 12) (Memo, 13), mk_link 33 7 (Memo, 10) (Memo, 14)],
      tags = [],
      friends = [(7, 8), (8, 7), (8, 9), (9, 8)],
      friend_requests = []\<rparr>"

text \<open>A distance on one-dimensional vectors that stands in for the cosine distance in the examples.\<close>

definition l1_distance :: "real list \<Rightarrow> real list \<Rightarrow> real" where
  "l1_distance e q = sum_list (map (\<lambda>(x, y). \<bar>x - y\<bar>) (zip e q))"

section \<open>Properties of the friendship graph\<close>

lemma add_friend_row_friends:
  "set (friends (add_friend_row db r)) = insert r (set (friends db))"
  unfolding add_friend_row_def by (cases "r \<in> set (friends db)") auto

lemma add_friend_row_requests: "friend_requests (add_friend_row db r) = friend_requests db"
  unfolding add_friend_row_def by simp

lemma friends_add_friends:
  "set (friends (friends_add db a b)) = insert (a, b) (insert (b, a) (set (friends db)))"
  unfolding friends_add_def by (simp add: add_friend_row_friends insert_commute)

lemma friends_add_requests: "friend_requests (friends_add db a b) = friend_requests db"
  unfolding friends_add_def by (simp add: add_friend_row_requests)

lemma is_friends_with_iff: "is_friends_with db a b \<longleftrightarrow> (a, b) \<in> set (friends db)"
  by (force simp: is_friends_with_def friends_all_def)

text \<open>
  Every operation of \<open>UserProfile\<close> keeps the friends table symmetrical, so the
  tables reachable from an empty one are symmetrical.
\<close>

lemma is_friends_with_sym: "symmetrical db \<Longrightarrow> is_friends_with db a b = is_friends_with db b a"
  by (auto simp: symmetrical_def is_friends_with_iff)

lemma friends_add_symmetrical: "symmetrical db \<Longrightarrow> symmetrical (friends_add db a b)"
  unfolding symmetrical_def friends_add_friends by auto

lemma accept_friend_request_symmetrical:
  "symmetrical db \<Longrightarrow> symmetrical (accept_friend_request db a b)"
  using friends_add_symmetrical [of "friends_add db a b" b a] friends_add_symmetrical [of db a b]
  by (auto simp: accept_friend_request_def Let_def symmetrical_def)

lemma remove_friend_symmetrical: "symmetrical db \<Longrightarrow> symmetrical (remove_friend db a b)"
  by (auto simp: remove_friend_def friends_remove_def symmetrical_def)

lemma send_friend_request_symmetrical:
  "symmetrical db \<Longrightarrow> symmetrical (send_friend_request db a b)"
  by (auto simp: send_friend_request_def symmetrical_def)

lemma reject_friend_request_symmetrical:
  "symmetrical db \<Longrightarrow> symmetrical (reject_friend_request db a b)"
  by (auto simp: reject_friend_request_def symmetrical_def)

text \<open>
  Claim C5. When a request from A to B is pending and B accepts it
  (\<open>B.accept_friend_request(A)\<close>), afterwards A is a friend of B, B is a friend of A,
  and the request from A to B is gone.
\<close>

theorem accept_friend_request_makes_friends:
  assumes "has_sent_request_to db A B"
  shows "is_friends_with (accept_friend_request db B A) A B
       \<and> is_friends_with (accept_friend_request db B A) B A
       \<and> \<not> has_sent_request_to (accept_friend_request db B A) A B"
  using assms
  by (simp add: accept_friend_request_def Let_def is_friends_with_iff friends_add_friends
      has_sent_request_to_def)

theorem accept_friend_request_makes_friends_witness:
  "has_sent_request_to (empty_db\<lparr>friend_requests := [(1, 2)]\<rparr>) 1 2
   \<and> is_friends_with (accept_friend_request (empty_db\<lparr>friend_requests := [(1, 2)]\<rparr>) 2 1) 1 2
   \<and> is_friends_with (accept_friend_request (empty_db\<lparr>friend_requests := [(1, 2)]\<rparr>) 2 1) 2 1
   \<and> \<not> has_sent_request_to (accept_friend_request (empty_db\<lparr>friend_requests := [(1, 2)]\<rparr>) 2 1) 1 2"
proof -
  have h: "has_sent_request_to (empty_db\<lparr>friend_requests := [(1, 2)]\<rparr>) 1 2"
    by (simp add: has_sent_request_to_def)
  show ?thesis
    using h accept_friend_request_makes_friends [OF h] by simp
qed

text \<open>
  Claim C4, as stated: a request of a user to itself fails with an error and creates no
  pending request. The source has no such check: on the empty database the request of
  user 1 to itself is stored.
\<close>

theorem send_friend_request_self_counterexample:
  "has_sent_request_to (send_friend_request empty_db 1 1) 1 1
   \<and> friend_requests (send_friend_request empty_db 1 1) = [(1, 1)]"
  by (simp add: send_friend_request_def has_sent_request_to_def is_friends_with_def
      friends_all_def empty_db_def)

text \<open>
  Claim C4, amended. \<open>send_friend_request\<close> raises nothing and has no check on the
  receiver being the sender: for a user who is not recorded as its own friend, after a
  request to itself the pending request from the user to itself exists, and the
  friendship rows are unchanged.
\<close>

theorem send_friend_request_self_creates_request:
  assumes "\<not> is_friends_with db A A"
  shows "has_sent_request_to (send_friend_request db A A) A A
       \<and> friends (send_friend_request db A A) = friends db"
  using assms
  by (simp add: send_friend_request_def has_sent_request_to_def)

theorem send_friend_request_self_creates_request_witness:
  "\<not> is_friends_with empty_db 7 7
   \<and> has_sent_request_to (send_friend_request empty_db 7 7) 7 7
   \<and> friends (send_friend_request empty_db 7 7) = friends empty_db"
proof -
  have h: "\<not> is_friends_with empty_db 7 7"
    by (simp add: is_friends_with_def friends_all_def empty_db_def)
  show ?thesis
    using h send_friend_request_self_creates_request [OF h] by simp
qed

section \<open>The example data, evaluated\<close>

lemma example_tables:
  "memos example_db = [mk_node 10 7 PRIVATE (Some [1/10]), mk_node 11 8 FRIENDS (Some [3/10]),
               mk_node 12 9 FRIENDS_OF_FRIENDS (Some [9/10]), mk_node 13 8 FRIENDS_OF_FRIENDS None,
               mk_node 14 7 PRIVATE (Some [5/10])]"
  "references example_db = [mk_node 20 7 PRIVATE (Some [2/10])]"
  "inklings example_db = []"
  "friends example_db = [(7, 8), (8, 7), (8, 9), (9, 8)]"
  by (simp_all add: example_db_def)

lemma example_links:
  "links example_db = [mk_link 30 7 (Memo, 10) (Memo, 11), mk_link 31 7 (Memo, 10) (Reference, 20),
               mk_link 32 9 (Memo, 12) (Memo, 13), mk_link 33 7 (Memo, 10) (Memo, 14)]"
  by (simp add: example_db_def)

lemma example_symmetrical: "symmetrical example_db"
  by (simp add: symmetrical_def example_tables)

lemma privacy_settings_distinct:
  "PRIVATE \<noteq> FRIENDS" "PRIVATE \<noteq> FRIENDS_OF_FRIENDS" "FRIENDS \<noteq> FRIENDS_OF_FRIENDS"
  "FRIENDS \<noteq> PRIVATE" "FRIENDS_OF_FRIENDS \<noteq> PRIVATE" "FRIENDS_OF_FRIENDS \<noteq> FRIENDS"
  by (simp_all add: PRIVATE_def FRIENDS_def FRIENDS_OF_FRIENDS_def)

section \<open>Properties of the visibility policy\<close>

lemma node_content_types_eq: "node_content_types = [Memo, Reference, Inkling]"
  by (simp add: node_content_types_def content_types_def)

lemma matches_own: "matches db m (get_own_objects_filter v) r \<longleftrightarrow> row_user r = v"
  by (simp add: get_own_objects_filter_def)

lemma resolvable_own: "resolvable m (get_own_objects_filter v)"
  by (simp add: get_own_objects_filter_def)

lemma not_resolvable_friends: "\<not> resolvable m (get_friends_objects_filter v)"
  by (simp add: get_friends_objects_filter_def)

text \<open>
  The filter of friends of friends cannot be built, and the filter of friends cannot be
  applied: the first reads \<open>user.userprofile\<close>, the second holds the lookup
  \<open>user__userprofile__friends\<close>.
\<close>

lemma friends_of_friends_filter_raises:
  "get_friends_of_friends_objects_filter db v = Inl (AttributeError ''userprofile'')"
  by (simp add: get_friends_of_friends_objects_filter_def userprofile_def)

lemma privacy_filter_own: "get_privacy_filter db v ''own'' = Inr (get_own_objects_filter v)"
  by (simp add: get_privacy_filter_def)

lemma privacy_filter_friends:
  "get_privacy_filter db v ''friends'' =
     Inr (QOr (get_own_objects_filter v) (get_friends_objects_filter v))"
  by (simp add: get_privacy_filter_def get_own_objects_filter_def get_friends_objects_filter_def)

lemma privacy_filter_fof:
  "get_privacy_filter db v ''fof'' = Inl (AttributeError ''userprofile'')"
  by (simp add: get_privacy_filter_def friends_of_friends_filter_raises)

lemma filter_query_friends:
  "filter_query db m (QOr (get_own_objects_filter v) (get_friends_objects_filter v)) rows
     = Inl FieldError"
  by (simp add: filter_query_def not_resolvable_friends)

lemma filter_query_own:
  "filter_query db m (get_own_objects_filter v) rows
     = Inr (filter (\<lambda>r. row_user r = v) rows)"
  by (simp add: filter_query_def resolvable_own filter_qs_def matches_own cong: filter_cong)

text \<open>
  \<open>is_viewable_by\<close> returns for the owner, for a private node and for a node with an
  unknown setting; for every other viewer of a node shared with friends or with friends
  of friends it raises.
\<close>

lemma is_viewable_by_eq:
  "is_viewable_by db n v =
     (if user n = v then Inr True
      else if privacy_setting n = FRIENDS \<or> privacy_setting n = FRIENDS_OF_FRIENDS
      then Inl (AttributeError ''userprofile'')
      else Inr False)"
  by (simp add: is_viewable_by_def userprofile_def privacy_settings_distinct)

text \<open>At level \<open>own\<close> the two checks agree.\<close>

lemma is_viewable_by_own_level:
  "get_privacy_filter db v ''own'' = Inr (get_own_objects_filter v)
   \<and> (is_viewable_by db n v = Inr True \<longleftrightarrow> matches db m (get_own_objects_filter v) (NodeRow n))"
  by (simp add: privacy_filter_own matches_own is_viewable_by_eq)

text \<open>
  Claim C8. For a level that is none of \<open>own\<close>, \<open>friends\<close> and \<open>fof\<close>, asking for
  the visibility predicate fails with the error of an unknown level
  (\<open>ValueError("Invalid level provided.")\<close>), for the content models and for \<open>Link\<close>.
\<close>

theorem get_privacy_filter_unknown_level:
  assumes "level \<notin> {''own'', ''friends'', ''fof''}"
  shows "get_privacy_filter db usr level = Inl (ValueError ''Invalid level provided.'')
       \<and> Link_get_privacy_filter db usr level = Inl (ValueError ''Invalid level provided.'')"
proof -
  have g: "get_privacy_filter db usr level = Inl (ValueError ''Invalid level provided.'')"
    using assms by (simp add: get_privacy_filter_def)
  show ?thesis
    using g by (simp add: Link_get_privacy_filter_def node_content_types_eq)
qed

theorem get_privacy_filter_unknown_level_witness:
  "''public'' \<notin> {''own'', ''friends'', ''fof''}
   \<and> get_privacy_filter empty_db 7 ''public'' = Inl (ValueError ''Invalid level provided.'')
   \<and> Link_get_privacy_filter empty_db 7 ''public'' = Inl (ValueError ''Invalid level provided.'')"
proof -
  have h: "''public'' \<notin> {''own'', ''friends'', ''fof''}" by simp
  show ?thesis using h get_privacy_filter_unknown_level [OF h] by simp
qed

text \<open>
  Claim C6, on the code. The claim orders the sets that the filters of the three levels
  select. For viewer 7 and the memos of the example, the filter of level \<open>own\<close>
  selects memos 10 and 14; the filter of level \<open>friends\<close> is built, and applying it
  raises \<open>FieldError\<close>; building the filter of level \<open>fof\<close> raises
  \<open>AttributeError\<close>. Neither wider level selects the memos of the viewer.
\<close>

theorem privacy_filter_levels_raise:
  "get_privacy_filter example_db 7 ''own'' = Inr (get_own_objects_filter 7)
   \<and> filter_query example_db Memo (get_own_objects_filter 7) (objects example_db Memo)
       = Inr [NodeRow (mk_node 10 7 PRIVATE (Some [1/10])), NodeRow (mk_node 14 7 PRIVATE (Some [5/10]))]
   \<and> get_privacy_filter example_db 7 ''friends''
       = Inr (QOr (get_own_objects_filter 7) (get_friends_objects_filter 7))
   \<and> filter_query example_db Memo (QOr (get_own_objects_filter 7) (get_friends_objects_filter 7))
        (objects example_db Memo) = Inl FieldError
   \<and> get_privacy_filter example_db 7 ''fof'' = Inl (AttributeError ''userprofile'')"
  by (simp add: privacy_filter_own privacy_filter_friends privacy_filter_fof filter_query_friends
      filter_query_own example_tables mk_node_def)

text \<open>
  Claim C1, on the code. The claim makes \<open>is_viewable_by\<close> true exactly when the
  filter of the level selects the node, at every level. For memo 10 and its owner 7,
  \<open>is_viewable_by\<close> returns true; the filter of level \<open>friends\<close> cannot be applied
  and the filter of level \<open>fof\<close> cannot be built, so neither selects the memo. For
  memo 11, shared with friends by user 8, \<open>is_viewable_by\<close> itself raises for the
  viewer 7.
\<close>

theorem is_viewable_by_filter_raise:
  "is_viewable_by example_db (mk_node 10 7 PRIVATE (Some [1/10])) 7 = Inr True
   \<and> get_privacy_filter example_db 7 ''friends''
       = Inr (QOr (get_own_objects_filter 7) (get_friends_objects_filter 7))
   \<and> filter_query example_db Memo (QOr (get_own_objects_filter 7) (get_friends_objects_filter 7))
        (objects example_db Memo) = Inl FieldError
   \<and> get_privacy_filter example_db 7 ''fof'' = Inl (AttributeError ''userprofile'')
   \<and> is_viewable_by example_db (mk_node 11 8 FRIENDS (Some [3/10])) 7
       = Inl (AttributeError ''userprofile'')"
  by (simp add: privacy_filter_friends privacy_filter_fof filter_query_friends
      is_viewable_by_eq mk_node_def)

section \<open>Properties of link visibility\<close>

lemma Link_get_privacy_filter_Inl:
  "get_privacy_filter db usr level = Inl e \<Longrightarrow> Link_get_privacy_filter db usr level = Inl e"
  by (simp add: Link_get_privacy_filter_def node_content_types_eq)

lemma Link_get_privacy_filter_friends:
  "Link_get_privacy_filter db usr ''friends'' = Inl FieldError"
  by (simp add: Link_get_privacy_filter_def node_content_types_eq privacy_filter_friends
      filter_query_friends)

lemma Link_get_privacy_filter_fof:
  "Link_get_privacy_filter db usr ''fof'' = Inl (AttributeError ''userprofile'')"
  by (simp add: Link_get_privacy_filter_Inl privacy_filter_fof)

lemma Link_get_privacy_filter_own:
  "Link_get_privacy_filter db usr ''own'' =
     Inr (QOr (QOr
       (QAnd (Q [Source_content_type_eq Memo,
                 Source_object_id_in
                   (map row_pk (filter (\<lambda>r. row_user r = usr) (objects db Memo)))])
             (Q [Target_content_type_eq Memo,
                 Target_object_id_in
                   (map row_pk (filter (\<lambda>r. row_user r = usr) (objects db Memo)))]))
       (QAnd (Q [Source_content_type_eq Reference,
                 Source_object_id_in
                   (map row_pk (filter (\<lambda>r. row_user r = usr) (objects db Reference)))])
             (Q [Target_content_type_eq Reference,
                 Target_object_id_in
                   (map row_pk (filter (\<lambda>r. row_user r = usr) (objects db Reference)))])))
       (QAnd (Q [Source_content_type_eq Inkling,
                 Source_object_id_in
                   (map row_pk (filter (\<lambda>r. row_user r = usr) (objects db Inkling)))])
             (Q [Target_content_type_eq Inkling,
                 Target_object_id_in
                   (map row_pk (filter (\<lambda>r. row_user r = usr) (objects db Inkling)))])))"
  unfolding Link_get_privacy_filter_def node_content_types_eq
  by (simp add: privacy_filter_own filter_query_own Let_def)

text \<open>
  \<open>Link.get_privacy_filter\<close> returns a filter at level \<open>own\<close> only: at the other
  levels it raises what building or applying the filter of the content models raises.
\<close>

lemma Link_get_privacy_filter_Inr_level:
  assumes "Link_get_privacy_filter db usr level = Inr q"
  shows "level = ''own''"
proof (rule ccontr)
  assume n: "level \<noteq> ''own''"
  show False
  proof (cases "level = ''friends''")
    case True
    with assms show False by (simp add: Link_get_privacy_filter_friends)
  next
    case False
    then have "\<exists>e. get_privacy_filter db usr level = Inl e"
      using n by (simp add: get_privacy_filter_def friends_of_friends_filter_raises)
    then obtain e where "get_privacy_filter db usr level = Inl e" by blast
    from Link_get_privacy_filter_Inl [OF this] assms show False by simp
  qed
qed

lemma Link_filter_same_kind:
  assumes "Link_get_privacy_filter db usr level = Inr q" and "matches db Link q (LinkRow l)"
  shows "source_content_type l = target_content_type l
       \<and> source_content_type l \<in> {Memo, Reference, Inkling}"
proof -
  have lv: "level = ''own''" using assms(1) by (rule Link_get_privacy_filter_Inr_level)
  from assms show ?thesis unfolding lv Link_get_privacy_filter_own by auto
qed

text \<open>
  Claim C9. A link that the filter of \<open>Link.get_privacy_filter\<close> selects has a source
  and a target of the same content type, and that type is one of memo, reference and
  inkling; neither endpoint is a link. In the example, at level \<open>own\<close> and for viewer
  7, the filter selects link 33, which joins two memos of the viewer.
\<close>

theorem Link_get_privacy_filter_same_content_kind:
  assumes "Link_get_privacy_filter db usr level = Inr q" and "matches db Link q (LinkRow l)"
  shows "source_content_type l = target_content_type l
       \<and> source_content_type l \<in> {Memo, Reference, Inkling}
       \<and> source_content_type l \<noteq> Link \<and> target_content_type l \<noteq> Link"
  using Link_filter_same_kind [OF assms] by auto

lemma example_own_memos:
  "map row_pk (filter (\<lambda>r. row_user r = 7) (objects example_db Memo)) = [10, 14]"
  by (simp add: example_tables mk_node_def)

lemma example_own_references:
  "map row_pk (filter (\<lambda>r. row_user r = 7) (objects example_db Reference)) = [20]"
  by (simp add: example_tables mk_node_def)

lemma example_own_inklings:
  "map row_pk (filter (\<lambda>r. row_user r = 7) (objects example_db Inkling)) = []"
  by (simp add: example_tables)

theorem Link_get_privacy_filter_same_content_kind_witness:
  "Link_get_privacy_filter example_db 7 ''own''
      = Inr (projr (Link_get_privacy_filter example_db 7 ''own''))
   \<and> matches example_db Link (projr (Link_get_privacy_filter example_db 7 ''own''))
        (LinkRow (mk_link 33 7 (Memo, 10) (Memo, 14)))
   \<and> source_content_type (mk_link 33 7 (Memo, 10) (Memo, 14))
       = target_content_type (mk_link 33 7 (Memo, 10) (Memo, 14))
   \<and> source_content_type (mk_link 33 7 (Memo, 10) (Memo, 14)) \<in> {Memo, Reference, Inkling}"
proof -
  note L = Link_get_privacy_filter_own [of example_db 7]
  have m: "matches example_db Link (projr (Link_get_privacy_filter example_db 7 ''own''))
             (LinkRow (mk_link 33 7 (Memo, 10) (Memo, 14)))"
    unfolding L example_own_memos example_own_references example_own_inklings
    by (simp add: mk_link_def)
  have i: "Link_get_privacy_filter example_db 7 ''own''
             = Inr (projr (Link_get_privacy_filter example_db 7 ''own''))"
    unfolding L by simp
  show ?thesis
    using i m Link_get_privacy_filter_same_content_kind [OF i m] by blast
qed

text \<open>
  \<open>Link.is_viewable_by\<close> returns no truth value on any link: the call on the source
  endpoint raises, whatever the endpoint is.
\<close>

lemma Link_is_viewable_by_raises:
  "\<exists>e. Link_is_viewable_by depth db l usr level = Inl e"
proof (induction depth arbitrary: l)
  case 0
  show ?case by simp
next
  case (Suc depth)
  have "\<exists>e. call_is_viewable_by (\<lambda>l. Link_is_viewable_by depth db l usr level) obj = Inl e" for obj
    using Suc.IH by (auto simp: call_is_viewable_by_def split: option.splits row.splits)
  then obtain e where
    "call_is_viewable_by (\<lambda>l. Link_is_viewable_by depth db l usr level)
       (source_content_object db l) = Inl e"
    by blast
  then show ?case by simp
qed

lemma Link_is_viewable_by_content_source:
  assumes "source_content_object db l = Some (m, NodeRow n)"
  shows "Link_is_viewable_by (Suc depth) db l usr level =
           Inl (TypeError ''PrivacySettingsModel.is_viewable_by() takes 2 positional arguments but 3 were given'')"
  using assms by (simp add: call_is_viewable_by_def)

text \<open>
  Claim C2, on the code. Link 31 joins memo 10 and reference 20, both owned by the
  viewer 7 and so each viewable by 7 at every level. The claim makes the link viewable.
  At level \<open>own\<close>, \<open>Link.is_viewable_by\<close> raises \<open>TypeError\<close> on it, and the
  filter of \<open>Link.get_privacy_filter\<close> selects link 33 only, not link 31.
\<close>

theorem Link_is_viewable_by_cross_kind_link:
  "is_viewable_by example_db (mk_node 10 7 PRIVATE (Some [1/10])) 7 = Inr True
   \<and> is_viewable_by example_db (mk_node 20 7 PRIVATE (Some [2/10])) 7 = Inr True
   \<and> Link_is_viewable_by 1000 example_db (mk_link 31 7 (Memo, 10) (Reference, 20)) 7 ''own''
       = Inl (TypeError ''PrivacySettingsModel.is_viewable_by() takes 2 positional arguments but 3 were given'')
   \<and> (case Link_get_privacy_filter example_db 7 ''own'' of
         Inl e \<Rightarrow> False
       | Inr q \<Rightarrow> filter_query example_db Link q (objects example_db Link)
                   = Inr [LinkRow (mk_link 33 7 (Memo, 10) (Memo, 14))])"
proof -
  have v1: "is_viewable_by example_db (mk_node 10 7 PRIVATE (Some [1/10])) 7 = Inr True"
    by (simp add: is_viewable_by_def mk_node_def)
  have v2: "is_viewable_by example_db (mk_node 20 7 PRIVATE (Some [2/10])) 7 = Inr True"
    by (simp add: is_viewable_by_def mk_node_def)
  have src: "source_content_object example_db (mk_link 31 7 (Memo, 10) (Reference, 20))
               = Some (Memo, NodeRow (mk_node 10 7 PRIVATE (Some [1/10])))"
    by (simp add: source_content_object_def get_object_def mk_link_def mk_node_def example_tables)
  have d: "(1000::nat) = Suc 999" by simp
  have e: "Link_is_viewable_by 1000 example_db (mk_link 31 7 (Memo, 10) (Reference, 20)) 7 ''own''
       = Inl (TypeError ''PrivacySettingsModel.is_viewable_by() takes 2 positional arguments but 3 were given'')"
    unfolding d by (rule Link_is_viewable_by_content_source [OF src])
  have f: "(case Link_get_privacy_filter example_db 7 ''own'' of
         Inl e \<Rightarrow> False
       | Inr q \<Rightarrow> filter_query example_db Link q (objects example_db Link)
                   = Inr [LinkRow (mk_link 33 7 (Memo, 10) (Memo, 14))])"
    unfolding Link_get_privacy_filter_own example_own_memos example_own_references
      example_own_inklings
    by (simp add: filter_query_def filter_qs_def example_links mk_link_def)
  show ?thesis
    using v1 v2 e f by simp
qed

section \<open>Properties of the exclusion filter\<close>

lemma q_or_nonempty [simp]: "a \<noteq> Q [] \<Longrightarrow> b \<noteq> Q [] \<Longrightarrow> q_or a b = QOr a b"
  by (cases "(a, b)" rule: q_or.cases) auto

lemma related_nodes_filter_nonempty: "related_nodes_filter sm n k \<noteq> Q []"
  by (simp add: related_nodes_filter_def Let_def)

lemma related_nodes_filter_matches:
  assumes "holds db k c (Source_links_source_content_type_eq k)
         \<or> holds db k c (Target_links_target_content_type_eq k)"
  shows "matches db k (related_nodes_filter sm n k) c"
  using assms by (auto simp: related_nodes_filter_def Let_def)

lemma Link_related_nodes_filter_matches:
  assumes "matches db k (related_nodes_filter Link n k) c"
  shows "matches db k (Link_related_nodes_filter db n k) c"
  using assms related_nodes_filter_nonempty [of Link n k]
  by (auto simp: Link_related_nodes_filter_def Let_def)

lemma Link_related_nodes_filter_nonempty: "Link_related_nodes_filter db n k \<noteq> Q []"
  using related_nodes_filter_nonempty [of Link n k]
  by (auto simp: Link_related_nodes_filter_def Let_def)

lemma endpoint_holds:
  assumes "l \<in> set (links db)"
    and "(source_content_type l = k \<and> source_object_id l = row_pk c)
       \<or> (target_content_type l = k \<and> target_object_id l = row_pk c)"
  shows "holds db k c (Source_links_source_content_type_eq k)
       \<or> holds db k c (Target_links_target_content_type_eq k)"
  using assms by auto

lemma exclude_qs_matches:
  "q \<noteq> Q [] \<Longrightarrow> matches db m q c \<Longrightarrow> c \<notin> set (exclude_qs db m q rows)"
  by (simp add: exclude_qs_def)

text \<open>
  Claim C7. Let \<open>l\<close> be a link of the database and \<open>c\<close> a candidate of kind \<open>k\<close> that
  is the source or the target of \<open>l\<close>. If \<open>l\<close> is one of the links of a node \<open>n\<close>
  (\<open>all_links\<close>), the filter \<open>n.related_nodes_filter(k)\<close> matches \<open>c\<close>, and \<open>c\<close> is not
  among the candidates left after excluding by it; the same holds of the override
  \<open>Link.related_nodes_filter\<close> when the node is a link.
\<close>

theorem related_nodes_filter_excludes_linked:
  assumes "l \<in> set (links db)"
    and "(source_content_type l = k \<and> source_object_id l = row_pk c)
       \<or> (target_content_type l = k \<and> target_object_id l = row_pk c)"
  shows "(LinkRow l \<in> set (all_links db self_model n) \<longrightarrow>
            matches db k (related_nodes_filter self_model n k) c
          \<and> c \<notin> set (exclude_qs db k (related_nodes_filter self_model n k) (objects db k)))
       \<and> (LinkRow l \<in> set (all_links db Link self_link) \<longrightarrow>
            matches db k (Link_related_nodes_filter db self_link k) c
          \<and> c \<notin> set (exclude_qs db k (Link_related_nodes_filter db self_link k) (objects db k)))"
proof -
  have h: "holds db k c (Source_links_source_content_type_eq k)
         \<or> holds db k c (Target_links_target_content_type_eq k)"
    using assms by (rule endpoint_holds)
  have m1: "matches db k (related_nodes_filter self_model n k) c"
    using h by (rule related_nodes_filter_matches)
  have "matches db k (related_nodes_filter Link self_link k) c"
    using h by (rule related_nodes_filter_matches)
  then have m2: "matches db k (Link_related_nodes_filter db self_link k) c"
    by (rule Link_related_nodes_filter_matches)
  show ?thesis
    using m1 m2 exclude_qs_matches [OF related_nodes_filter_nonempty m1]
      exclude_qs_matches [OF Link_related_nodes_filter_nonempty m2]
    by blast
qed

theorem related_nodes_filter_excludes_linked_witness:
  "mk_link 30 7 (Memo, 10) (Memo, 11) \<in> set (links example_db)
   \<and> LinkRow (mk_link 30 7 (Memo, 10) (Memo, 11))
        \<in> set (all_links example_db Memo (mk_node 10 7 PRIVATE (Some [1/10])))
   \<and> matches example_db Memo
        (related_nodes_filter Memo (mk_node 10 7 PRIVATE (Some [1/10])) Memo)
        (NodeRow (mk_node 11 8 FRIENDS (Some [3/10])))
   \<and> NodeRow (mk_node 11 8 FRIENDS (Some [3/10]))
        \<notin> set (exclude_qs example_db Memo
                  (related_nodes_filter Memo (mk_node 10 7 PRIVATE (Some [1/10])) Memo)
                  (objects example_db Memo))"
proof -
  have a: "mk_link 30 7 (Memo, 10) (Memo, 11) \<in> set (links example_db)"
    by (simp add: example_links)
  have b: "(source_content_type (mk_link 30 7 (Memo, 10) (Memo, 11)) = Memo
            \<and> source_object_id (mk_link 30 7 (Memo, 10) (Memo, 11))
                = row_pk (NodeRow (mk_node 11 8 FRIENDS (Some [3/10]))))
         \<or> (target_content_type (mk_link 30 7 (Memo, 10) (Memo, 11)) = Memo
            \<and> target_object_id (mk_link 30 7 (Memo, 10) (Memo, 11))
                = row_pk (NodeRow (mk_node 11 8 FRIENDS (Some [3/10]))))"
    by (simp add: mk_link_def mk_node_def)
  have c: "LinkRow (mk_link 30 7 (Memo, 10) (Memo, 11))
        \<in> set (all_links example_db Memo (mk_node 10 7 PRIVATE (Some [1/10])))"
    by (simp add: all_links_def filter_qs_def example_links mk_link_def mk_node_def)
  show ?thesis
    using a c related_nodes_filter_excludes_linked [OF a b, of Memo "mk_node 10 7 PRIVATE (Some [1/10])"]
    by simp
qed

text \<open>
  Claim C10. The filter \<open>n.related_nodes_filter(k)\<close> matches every candidate of kind
  \<open>k\<close> that is the source or the target of any link of the database; no hypothesis
  ties the link to \<open>n\<close>. In the example, link 32 is not a link of memo 10, and its
  source, memo 12, is excluded from the candidates for memo 10.
\<close>

theorem related_nodes_filter_excludes_any_linked:
  assumes "l \<in> set (links db)"
    and "(source_content_type l = k \<and> source_object_id l = row_pk c)
       \<or> (target_content_type l = k \<and> target_object_id l = row_pk c)"
  shows "matches db k (related_nodes_filter self_model n k) c
       \<and> c \<notin> set (exclude_qs db k (related_nodes_filter self_model n k) (objects db k))"
proof -
  have h: "holds db k c (Source_links_source_content_type_eq k)
         \<or> holds db k c (Target_links_target_content_type_eq k)"
    using assms by (rule endpoint_holds)
  have m1: "matches db k (related_nodes_filter self_model n k) c"
    using h by (rule related_nodes_filter_matches)
  show ?thesis
    using m1 exclude_qs_matches [OF related_nodes_filter_nonempty m1] by blast
qed

theorem related_nodes_filter_excludes_any_linked_witness:
  "mk_link 32 9 (Memo, 12) (Memo, 13) \<in> set (links example_db)
   \<and> LinkRow (mk_link 32 9 (Memo, 12) (Memo, 13))
        \<notin> set (all_links example_db Memo (mk_node 10 7 PRIVATE (Some [1/10])))
   \<and> matches example_db Memo
        (related_nodes_filter Memo (mk_node 10 7 PRIVATE (Some [1/10])) Memo)
        (NodeRow (mk_node 12 9 FRIENDS_OF_FRIENDS (Some [9/10])))
   \<and> NodeRow (mk_node 12 9 FRIENDS_OF_FRIENDS (Some [9/10]))
        \<notin> set (exclude_qs example_db Memo
                  (related_nodes_filter Memo (mk_node 10 7 PRIVATE (Some [1/10])) Memo)
                  (objects example_db Memo))"
proof -
  have a: "mk_link 32 9 (Memo, 12) (Memo, 13) \<in> set (links example_db)"
    by (simp add: example_links)
  have b: "(source_content_type (mk_link 32 9 (Memo, 12) (Memo, 13)) = Memo
            \<and> source_object_id (mk_link 32 9 (Memo, 12) (Memo, 13))
                = row_pk (NodeRow (mk_node 12 9 FRIENDS_OF_FRIENDS (Some [9/10]))))
         \<or> (target_content_type (mk_link 32 9 (Memo, 12) (Memo, 13)) = Memo
            \<and> target_object_id (mk_link 32 9 (Memo, 12) (Memo, 13))
                = row_pk (NodeRow (mk_node 12 9 FRIENDS_OF_FRIENDS (Some [9/10]))))"
    by (simp add: mk_link_def mk_node_def)
  have c: "LinkRow (mk_link 32 9 (Memo, 12) (Memo, 13))
        \<notin> set (all_links example_db Memo (mk_node 10 7 PRIVATE (Some [1/10])))"
    by (simp add: all_links_def filter_qs_def example_links mk_link_def mk_node_def)
  show ?thesis
    using a c related_nodes_filter_excludes_any_linked [OF a b] by simp
qed

section \<open>Properties of the similarity search\<close>

lemma example_alias:
  "alias_distance l1_distance [0] (objects example_db Memo) =
     [(NodeRow (mk_node 10 7 PRIVATE (Some [1/10])), 1/10),
      (NodeRow (mk_node 11 8 FRIENDS (Some [3/10])), 3/10),
      (NodeRow (mk_node 12 9 FRIENDS_OF_FRIENDS (Some [9/10])), 9/10),
      (NodeRow (mk_node 14 7 PRIVATE (Some [5/10])), 5/10)]"
  by (simp add: alias_distance_def l1_distance_def example_tables List.map_filter_simps mk_node_def)

text \<open>
  Whatever the limit, a returned result is sorted by distance and below the threshold;
  a limit other than \<open>0\<close> bounds its length.
\<close>

lemma get_similar_objects_sorted:
  assumes "get_similar_objects cd db cls emb usr exclude_filter limit threshold level = Inr res"
  shows "sorted (map snd res) \<and> (\<forall>(r, d) \<in> set res. d < threshold)
       \<and> (\<forall>n. limit = Some n \<and> n \<noteq> 0 \<longrightarrow> int (length res) \<le> n)"
proof -
  define q0 where "q0 = sort_key snd (filter (\<lambda>(r, distance). distance < threshold)
                          (alias_distance cd emb (objects db cls)))"
  have s0: "sorted (map snd q0)" unfolding q0_def by (rule sorted_sort_key)
  have t0: "\<forall>(r, d) \<in> set q0. d < threshold" unfolding q0_def by auto
  obtain pf where pf: "(if issubclass_PrivacySettingsModel cls
               then cls_get_privacy_filter db cls usr level
               else Inr (Q [User_eq usr])) = Inr pf"
    using assms by (auto simp: get_similar_objects_def Let_def split: sum.splits)
  define q1 where "q1 = filter (\<lambda>(r, distance). matches db cls pf r) q0"
  have s1: "sorted (map snd q1)" using s0 unfolding q1_def by (simp add: sorted_map sorted_wrt_filter)
  obtain q2 where q2: "(case exclude_filter of
                           None \<Rightarrow> Inr q1
                         | Some q \<Rightarrow>
                             if \<not> resolvable cls q then Inl FieldError
                             else if q = Q [] then Inr q1
                             else Inr (filter (\<lambda>(r, distance). \<not> matches db cls q r) q1)) = Inr q2"
    using assms unfolding get_similar_objects_def Let_def pf q1_def q0_def
    by (auto split: sum.splits if_splits)
  have e2: "q2 = q1 \<or> (\<exists>q. q2 = filter (\<lambda>(r, distance). \<not> matches db cls q r) q1)"
    using q2 by (auto split: option.splits if_splits)
  have s2: "sorted (map snd q2)" using s1 e2
    by (auto simp: sorted_map sorted_wrt_filter)
  have t2: "set q2 \<subseteq> set q0" using e2 unfolding q1_def by auto
  have r: "(res = q2 \<and> (limit = None \<or> limit = Some 0))
         \<or> (\<exists>n. limit = Some n \<and> 0 < n \<and> res = take (nat n) q2)"
    using assms q2 unfolding get_similar_objects_def Let_def pf q1_def q0_def
    by (cases limit) (auto split: if_splits)
  from r show ?thesis
  proof
    assume "res = q2 \<and> (limit = None \<or> limit = Some 0)"
    then show ?thesis using s2 t2 t0 by auto
  next
    assume "\<exists>n. limit = Some n \<and> 0 < n \<and> res = take (nat n) q2"
    then obtain n where n: "limit = Some n" "0 < n" "res = take (nat n) q2" by blast
    have a: "sorted (map snd res)" using s2 n(3) by (simp add: sorted_map sorted_wrt_take)
    have b: "set res \<subseteq> set q0" using t2 n(3) set_take_subset [of "nat n" q2] by blast
    have c: "int (length res) \<le> n" using n by simp
    show ?thesis using a b c t0 n(1) by auto
  qed
qed

text \<open>
  Claim C3, on the code. With the limit \<open>0\<close> the claim bounds the length of the result
  by 0. \<open>if limit:\<close> is false for \<open>0\<close>, the queryset is not sliced, and at level
  \<open>own\<close> both memos of viewer 7 within the threshold are returned.
\<close>

theorem get_similar_objects_limit_zero:
  "get_similar_objects l1_distance example_db Memo [0] 7 None (Some 0) (7/10) ''own''
     = Inr [(NodeRow (mk_node 10 7 PRIVATE (Some [1/10])), 1/10),
            (NodeRow (mk_node 14 7 PRIVATE (Some [5/10])), 5/10)]"
  unfolding get_similar_objects_def example_alias
  by (simp add: cls_get_privacy_filter_def privacy_filter_own matches_own resolvable_own
      mk_node_def)

lemma get_similar_objects_limit_one:
  "get_similar_objects l1_distance example_db Memo [0] 7 None (Some 1) (7/10) ''own''
     = Inr [(NodeRow (mk_node 10 7 PRIVATE (Some [1/10])), 1/10)]"
  unfolding get_similar_objects_def example_alias
  by (simp add: cls_get_privacy_filter_def privacy_filter_own matches_own resolvable_own
      mk_node_def)

text \<open>
  For a content model the search returns at level \<open>own\<close> only.
\<close>

lemma get_similar_objects_friends_raises:
  "get_similar_objects cd db Memo emb usr exclude_filter limit threshold ''friends'' = Inl FieldError"
  by (simp add: get_similar_objects_def cls_get_privacy_filter_def privacy_filter_friends
      not_resolvable_friends resolvable_own)

lemma get_similar_objects_fof_raises:
  "get_similar_objects cd db Memo emb usr exclude_filter limit threshold ''fof''
     = Inl (AttributeError ''userprofile'')"
  by (simp add: get_similar_objects_def cls_get_privacy_filter_def privacy_filter_fof)

end
